theory Spec2Isabelle
  imports Main
begin

section \<open>Python values, strings and exceptions\<close>

text \<open>
  The program is \<^verbatim>\<open>src/utils/vexos_dl.py\<close>, a Python 3 script (it uses
  \<^verbatim>\<open>json.JSONDecodeError\<close> and the \<^verbatim>\<open>print\<close> function). Python strings are
  modelled as \<^typ>\<open>string\<close>, exceptions as values of the type \<open>error\<close>.

  In Python 3 \<^verbatim>\<open>IOError\<close> is an alias of \<^verbatim>\<open>OSError\<close>, so a handler
  \<^verbatim>\<open>except IOError\<close> catches every operating-system error, and also the exceptions of
  the \<^verbatim>\<open>requests\<close> library, whose base class derives from \<^verbatim>\<open>IOError\<close>.
  A statement \<^verbatim>\<open>raise "message"\<close> does not raise the message: a \<^verbatim>\<open>str\<close> is not an
  exception, and Python raises \<^verbatim>\<open>TypeError\<close> at that point. The constructor
  \<open>RaiseStr\<close> stands for that \<^verbatim>\<open>TypeError\<close> and keeps the message of the source line.
\<close>

datatype error =
    IOError string
  | RaiseStr string
  | TypeError
  | IndexError
  | AttributeError
  | ConnectionError
  | RequestException
  | BadZipFile

fun is_IOError :: "error \<Rightarrow> bool" where
  "is_IOError (IOError m) = True"
| "is_IOError ConnectionError = True"
| "is_IOError RequestException = True"
| "is_IOError e = False"

text \<open>\<^verbatim>\<open>s.split(sep)\<close> for a separator of one character.\<close>

fun py_split :: "char \<Rightarrow> string \<Rightarrow> string list" where
  "py_split sep [] = [[]]"
| "py_split sep (c # cs) =
     (if c = sep then [] # py_split sep cs
      else (case py_split sep cs of w # ws \<Rightarrow> (c # w) # ws | [] \<Rightarrow> [[c]]))"

text \<open>\<^verbatim>\<open>xs[i]\<close> for a non-negative constant index: out of range raises \<^verbatim>\<open>IndexError\<close>.\<close>

definition index :: "'a list \<Rightarrow> nat \<Rightarrow> error + 'a" where
  "index xs i = (if i < length xs then Inr (xs ! i) else Inl IndexError)"

text \<open>
  \<^verbatim>\<open>a < b\<close> and \<^verbatim>\<open>a > b\<close> on two \<^verbatim>\<open>str\<close> values: lexicographic on the code points,
  a proper prefix being smaller.
\<close>

fun str_lt :: "string \<Rightarrow> string \<Rightarrow> bool" where
  "str_lt [] [] = False"
| "str_lt [] (b # bs) = True"
| "str_lt (a # as) [] = False"
| "str_lt (a # as) (b # bs) =
     ((of_char a :: nat) < of_char b \<or> (a = b \<and> str_lt as bs))"

definition str_gt :: "string \<Rightarrow> string \<Rightarrow> bool" where
  "str_gt a b = str_lt b a"

text \<open>\<^verbatim>\<open>s.startswith(p)\<close>.\<close>

definition startswith :: "string \<Rightarrow> string \<Rightarrow> bool" where
  "startswith s p = (take (length p) s = p)"

section \<open>Versioning functions\<close>

definition parse_msg :: string where
  "parse_msg = ''ERROR: Failed to parse VEXos version. Please try again later.''"

text \<open>\<^verbatim>\<open>vexos_to_semver\<close>, lines 82 to 98.\<close>

definition vexos_to_semver :: "string \<Rightarrow> error + string" where
  "vexos_to_semver version =
     (let version_split = py_split (CHR ''_'') version in
      if length version_split \<noteq> 6 then Inl (RaiseStr parse_msg)
      else if version_split ! 0 \<noteq> ''VEXOS'' then Inl (RaiseStr parse_msg)
      else if version_split ! 1 \<noteq> ''V5'' then Inl (RaiseStr parse_msg)
      else Inr (version_split ! 2 @ ''.'' @ version_split ! 3 @ ''.'' @
                version_split ! 4 @ ''.'' @ version_split ! 5))"

text \<open>
  One \<^verbatim>\<open>if\<close>/\<^verbatim>\<open>elif\<close> block of \<^verbatim>\<open>is_outdated\<close> (lines 112 to 115, and the three
  blocks after it): \<open>Inr (Some b)\<close> when the block returns \<open>b\<close>, \<open>Inr None\<close> when
  control falls through to the next block.
\<close>

definition compare_part :: "string list \<Rightarrow> string list \<Rightarrow> nat \<Rightarrow> error + bool option" where
  "compare_part current_semver latest_semver i =
     (case index current_semver i of
        Inl e \<Rightarrow> Inl e
      | Inr c \<Rightarrow>
          (case index latest_semver i of
             Inl e \<Rightarrow> Inl e
           | Inr l \<Rightarrow>
               if str_gt c l then Inr (Some False)
               else if str_lt c l then Inr (Some True)
               else Inr None))"

text \<open>\<^verbatim>\<open>is_outdated\<close>, lines 100 to 136.\<close>

definition is_outdated :: "string \<Rightarrow> string \<Rightarrow> error + bool" where
  "is_outdated current latest =
     (let current_semver = py_split (CHR ''.'') current in
      case vexos_to_semver latest of
        Inl e \<Rightarrow> Inl e
      | Inr semver \<Rightarrow>
          (let latest_semver = py_split (CHR ''.'') semver in
           case compare_part current_semver latest_semver 0 of
             Inl e \<Rightarrow> Inl e
           | Inr (Some b) \<Rightarrow> Inr b
           | Inr None \<Rightarrow>
          (case compare_part current_semver latest_semver 1 of
             Inl e \<Rightarrow> Inl e
           | Inr (Some b) \<Rightarrow> Inr b
           | Inr None \<Rightarrow>
          (case compare_part current_semver latest_semver 2 of
             Inl e \<Rightarrow> Inl e
           | Inr (Some b) \<Rightarrow> Inr b
           | Inr None \<Rightarrow>
          (case compare_part current_semver latest_semver 3 of
             Inl e \<Rightarrow> Inl e
           | Inr (Some b) \<Rightarrow> Inr b
           | Inr None \<Rightarrow> Inr False)))))"

section \<open>The world outside the program\<close>

text \<open>
  The script works on two fixed paths of the current directory: the downloaded package
  \<^verbatim>\<open>vexos.vexos\<close> (a file) and the installation \<^verbatim>\<open>vexos\<close> (a directory tree).
  A directory is the list of its entries in the order \<^verbatim>\<open>os.listdir\<close> reports them.
  The lines the script prints are kept in \<open>out\<close>, oldest first. An exception does
  not undo what was done before it, so every effectful function returns the world it
  leaves behind together with its result or its exception.
\<close>

datatype node = File string | Dir "(string \<times> node) list"

type_synonym dir = "(string \<times> node) list"

record world =
  artifact :: "string option"
  target :: "dir option"
  out :: "string list"

text \<open>A value decoded by \<^verbatim>\<open>json.loads\<close>; \<open>JNull\<close> is Python's \<^verbatim>\<open>None\<close>.\<close>

datatype json =
    JNull
  | JBool bool
  | JNum int
  | JStr string
  | JArr "json list"
  | JObj "(string \<times> json) list"

text \<open>
  What the program cannot decide is a parameter of the model:
  \<^item> \<open>catalog\<close>: the outcome of \<^verbatim>\<open>requests.get(vexos_catalog_url)\<close>, the text of the
    response or the exception raised;
  \<^item> \<open>package\<close>: the outcome of \<^verbatim>\<open>requests.get\<close> on a download URL, the content of the
    response or the exception raised;
  \<^item> \<open>unpack\<close>: what \<^verbatim>\<open>shutil.unpack_archive\<close> makes of the package's bytes and of the
    present state of \<^verbatim>\<open>vexos\<close>: the exception it raises, if any, and the state of
    \<^verbatim>\<open>vexos\<close> it leaves (an archive without entries creates no directory);
  \<^item> \<open>json_loads\<close>: \<^verbatim>\<open>json.loads\<close>, \<open>None\<close> for \<^verbatim>\<open>JSONDecodeError\<close>;
  \<^item> five switches for operations that the operating system refuses on an existing
    path (permissions, a locked file, a read-only medium): opening the package for
    reading, writing it, removing it, removing the tree \<^verbatim>\<open>vexos\<close>, and opening the
    manifest. A refused operation on a file leaves the file as it was;
  \<^item> \<open>rmtree_leaves\<close>: \<^verbatim>\<open>shutil.rmtree\<close> deletes entry by entry and raises at the
    first refusal, so a refused removal of the tree leaves a part of it: \<open>rmtree_leaves\<close>
    gives what is left of the tree it was called on.
  Operations inside a freshly unpacked tree fail only for the reasons the tree itself
  gives (a first entry that is a file, a name that is already taken).
\<close>

record env =
  catalog :: "error + string"
  package :: "string \<Rightarrow> error + string"
  unpack :: "string \<Rightarrow> dir option \<Rightarrow> error option \<times> dir option"
  json_loads :: "string \<Rightarrow> json option"
  artifact_read_fails :: bool
  artifact_write_fails :: bool
  artifact_remove_fails :: bool
  target_rmtree_fails :: bool
  rmtree_leaves :: "dir \<Rightarrow> dir"
  manifest_read_fails :: bool

definition print :: "string \<Rightarrow> world \<Rightarrow> world" where
  "print line w = w\<lparr>out := out w @ [line]\<rparr>"

text \<open>\<^verbatim>\<open>os.remove("vexos.vexos")\<close>.\<close>

definition os_remove :: "env \<Rightarrow> world \<Rightarrow> (error + unit) \<times> world" where
  "os_remove env w =
     (if artifact w = None then (Inl (IOError ''FileNotFoundError''), w)
      else if artifact_remove_fails env then (Inl (IOError ''PermissionError''), w)
      else (Inr (), w\<lparr>artifact := None\<rparr>))"

text \<open>\<^verbatim>\<open>shutil.rmtree("vexos")\<close>.\<close>

definition rmtree :: "env \<Rightarrow> world \<Rightarrow> (error + unit) \<times> world" where
  "rmtree env w =
     (case target w of
        None \<Rightarrow> (Inl (IOError ''FileNotFoundError''), w)
      | Some entries \<Rightarrow>
          if target_rmtree_fails env
          then (Inl (IOError ''PermissionError''), w\<lparr>target := Some (rmtree_leaves env entries)\<rparr>)
          else (Inr (), w\<lparr>target := None\<rparr>))"

text \<open>\<^verbatim>\<open>try: ... except IOError: pass\<close> around one call.\<close>

definition except_IOError_pass :: "(error + unit) \<times> world \<Rightarrow> (error + unit) \<times> world" where
  "except_IOError_pass r =
     (case fst r of
        Inl e \<Rightarrow> if is_IOError e then (Inr (), snd r) else r
      | Inr u \<Rightarrow> r)"

section \<open>Downloader functions\<close>

definition vexos_base_url :: string where
  "vexos_base_url = ''https://content.vexrobotics.com/vexos/public/V5/''"

text \<open>
  \<^verbatim>\<open>download_vexos\<close>, lines 13 to 35. Only \<^verbatim>\<open>ConnectionError\<close> is caught around the
  request; the messages are the source's literals (they are not f-strings).
\<close>

definition download_vexos :: "env \<Rightarrow> string \<Rightarrow> world \<Rightarrow> (error + unit) \<times> world" where
  "download_vexos env vexos_version w =
     (let vexos_download_url = vexos_base_url @ vexos_version @ ''.vexos'' in
      case package env vexos_download_url of
        Inl e \<Rightarrow>
          if e = ConnectionError
          then (Inl (RaiseStr
            ''ERROR: Failed to download ${vexos_version}. Please check your internet connection.''), w)
          else (Inl e, w)
      | Inr content \<Rightarrow>
          if artifact_write_fails env
          then (Inl (RaiseStr
            ''ERROR: Failed to save ${vexos_version} to file. Please check your permissions.''), w)
          else (Inr (), w\<lparr>artifact := Some content\<rparr>))"

text \<open>
  The loop of lines 59 and 60: every entry of the subfolder is moved into \<^verbatim>\<open>vexos\<close>.
  \<^verbatim>\<open>shutil.move\<close> into an existing directory raises \<^verbatim>\<open>shutil.Error\<close> (an
  \<^verbatim>\<open>OSError\<close>) when the name is already taken there. The subfolder is the first entry
  of \<^verbatim>\<open>vexos\<close>; \<open>others\<close> are the entries beside it. The result is the listing of
  \<^verbatim>\<open>vexos\<close> that the loop leaves.
\<close>

fun move_files :: "string \<Rightarrow> dir \<Rightarrow> dir \<Rightarrow> (error + unit) \<times> dir" where
  "move_files vexos_subfolder [] others = (Inr (), (vexos_subfolder, Dir []) # others)"
| "move_files vexos_subfolder ((file, n) # files) others =
     (if file = vexos_subfolder \<or> file \<in> set (map fst others)
      then (Inl (IOError ''shutil.Error: Destination path already exists''),
            (vexos_subfolder, Dir ((file, n) # files)) # others)
      else move_files vexos_subfolder files (others @ [(file, n)]))"

text \<open>
  \<^verbatim>\<open>extract_vexos\<close>, lines 37 to 61. After the loop the emptied subfolder, still the
  first entry of the listing, is removed (line 61).
\<close>

definition extract_vexos :: "env \<Rightarrow> world \<Rightarrow> (error + unit) \<times> world" where
  "extract_vexos env w =
     (case except_IOError_pass (rmtree env w) of
        (Inl e, w1) \<Rightarrow> (Inl e, w1)
      | (Inr u, w1) \<Rightarrow>
     (case (case artifact w1 of
              None \<Rightarrow> (Some (IOError ''shutil.ReadError''), target w1)
            | Some bytes \<Rightarrow> unpack env bytes (target w1)) of
        (Some e, t) \<Rightarrow>
          if is_IOError e
          then (Inl (RaiseStr ''ERROR: Failed to extract VexOS. Please check your permissions.''),
                w1\<lparr>target := t\<rparr>)
          else (Inl e, w1\<lparr>target := t\<rparr>)
      | (None, t) \<Rightarrow>
     (let w2 = w1\<lparr>target := t\<rparr> in
      case t of
        None \<Rightarrow> (Inl (IOError ''FileNotFoundError''), w2)
      | Some [] \<Rightarrow> (Inl IndexError, w2)
      | Some ((vexos_subfolder, File bytes) # others) \<Rightarrow> (Inl (IOError ''NotADirectoryError''), w2)
      | Some ((vexos_subfolder, Dir files) # others) \<Rightarrow>
          (case move_files vexos_subfolder files others of
             (Inl e, listing) \<Rightarrow> (Inl e, w2\<lparr>target := Some listing\<rparr>)
           | (Inr u, listing) \<Rightarrow> (Inr (), w2\<lparr>target := Some (tl listing)\<rparr>)))))"

definition catalog_msg :: string where
  "catalog_msg = ''ERROR: Failed to download catalog. Please check your internet connection.''"

text \<open>\<^verbatim>\<open>get_latest_version\<close>, lines 65 to 79.\<close>

definition get_latest_version :: "env \<Rightarrow> error + string" where
  "get_latest_version env =
     (case catalog env of
        Inl e \<Rightarrow> if e = ConnectionError then Inl (RaiseStr catalog_msg) else Inl e
      | Inr text \<Rightarrow>
          if \<not> startswith text ''VEXOS_V5_''
          then Inl (RaiseStr ''ERROR: Failed to parse catalog. Please check your internet connection.'')
          else Inr text)"

section \<open>The installed manifest and the conflict checker\<close>

text \<open>
  \<^verbatim>\<open>open("vexos/manifest.json", "r")\<close> and \<^verbatim>\<open>read()\<close>: \<open>None\<close> when they raise
  \<^verbatim>\<open>IOError\<close> (no directory, no such entry, the entry is a directory, or refused).
\<close>

definition read_manifest :: "env \<Rightarrow> world \<Rightarrow> string option" where
  "read_manifest env w =
     (case target w of
        None \<Rightarrow> None
      | Some entries \<Rightarrow>
          (case map_of entries ''manifest.json'' of
             Some (File text) \<Rightarrow> if manifest_read_fails env then None else Some text
           | Some (Dir d) \<Rightarrow> None
           | None \<Rightarrow> None))"

definition manifest_msg :: string where
  "manifest_msg = ''ERROR: Failed to parse manifest.json. Please check if the file is valid.''"

text \<open>
  \<^verbatim>\<open>get_installed_version\<close>, lines 138 to 162. \<^verbatim>\<open>manifest["version"]\<close> raises
  \<^verbatim>\<open>KeyError\<close> on a dictionary without the key and \<^verbatim>\<open>TypeError\<close> on a decoded value
  that is not a dictionary.
\<close>

definition get_installed_version :: "env \<Rightarrow> world \<Rightarrow> error + json" where
  "get_installed_version env w =
     (case read_manifest env w of
        None \<Rightarrow> Inl (IOError ''ERROR: Failed to read manifest.json. Please check your permissions.'')
      | Some text \<Rightarrow>
          (case json_loads env text of
             None \<Rightarrow> Inl (RaiseStr manifest_msg)
           | Some (JObj members) \<Rightarrow>
               (case map_of members ''version'' of
                  None \<Rightarrow> Inl (RaiseStr manifest_msg)
                | Some vexos_version \<Rightarrow> Inr vexos_version)
           | Some other \<Rightarrow> Inl TypeError))"

text \<open>\<^verbatim>\<open>package_already_downloaded\<close>, lines 165 to 174.\<close>

definition package_already_downloaded :: "env \<Rightarrow> world \<Rightarrow> bool" where
  "package_already_downloaded env w = (artifact w \<noteq> None \<and> \<not> artifact_read_fails env)"

text \<open>\<^verbatim>\<open>resolve_conflicts\<close>, lines 176 to 188.\<close>

definition resolve_conflicts :: "env \<Rightarrow> world \<Rightarrow> (error + unit) \<times> world" where
  "resolve_conflicts env w =
     (case except_IOError_pass (os_remove env w) of
        (Inl e, w1) \<Rightarrow> (Inl e, w1)
      | (Inr u, w1) \<Rightarrow> except_IOError_pass (rmtree env w1))"

section \<open>Installer\<close>

text \<open>
  \<^verbatim>\<open>install_vexos\<close>, lines 192 to 259, in the order of its commented blocks. The first
  block (lines 200 to 206) fixes the version to install.
\<close>

definition resolve_version :: "env \<Rightarrow> string option \<Rightarrow> world \<Rightarrow> (error + string) \<times> world" where
  "resolve_version env version w =
     (case version of
        None \<Rightarrow>
          (let w1 = print ''Getting Latest Version...'' w in
           case get_latest_version env of
             Inl e \<Rightarrow> (Inl e, w1)
           | Inr latest \<Rightarrow>
               (case vexos_to_semver latest of
                  Inl e \<Rightarrow> (Inl e, w1)
                | Inr semver \<Rightarrow> (Inr latest, print (''Latest Version: '' @ semver) w1)))
      | Some v \<Rightarrow> (Inr v, print (''Version Specified: '' @ v) w))"

text \<open>Lines 208 to 212: the installed version, \<^verbatim>\<open>None\<close> when reading it raises \<^verbatim>\<open>IOError\<close>.\<close>

definition read_installed :: "env \<Rightarrow> world \<Rightarrow> error + json" where
  "read_installed env w =
     (case get_installed_version env w of
        Inl e \<Rightarrow> if is_IOError e then Inr JNull else Inl e
      | Inr installed_version \<Rightarrow> Inr installed_version)"

datatype flow = Return | Continue

text \<open>
  Lines 214 to 225. \<^verbatim>\<open>is_outdated\<close> calls \<^verbatim>\<open>current.split\<close>, which only a
  \<^verbatim>\<open>str\<close> has: any other decoded value raises \<^verbatim>\<open>AttributeError\<close>.
\<close>

definition check_outdated :: "bool \<Rightarrow> json \<Rightarrow> string \<Rightarrow> world \<Rightarrow> (error + flow) \<times> world" where
  "check_outdated force installed_version version w =
     (case installed_version of
        JNull \<Rightarrow>
          (Inr Continue,
           print ''Fresh installation will be performed.'' (print ''No VexOS installation found.'' w))
      | JStr current \<Rightarrow>
          (case is_outdated current version of
             Inl e \<Rightarrow> (Inl e, w)
           | Inr outdated \<Rightarrow>
               if \<not> outdated \<and> \<not> force
               then (Inr Return, print ''Your VexOS installation is up to date.'' w)
               else if \<not> outdated \<and> force
               then (Inr Continue,
                     print ''Your VexOS installation is up to date, but continuing anyway.'' w)
               else (Inr Continue,
                     print (''An update is available (currently installed: '' @ current @ '').'') w))
      | other \<Rightarrow> (Inl AttributeError, w))"

text \<open>Lines 227 to 236.\<close>

definition check_conflicts :: "env \<Rightarrow> bool \<Rightarrow> world \<Rightarrow> (error + flow) \<times> world" where
  "check_conflicts env force w =
     (let w1 = print ''Checking for conflicts...'' w in
      if package_already_downloaded env w1 then
        (let w2 = print ''VexOS package already downloaded.'' w1 in
         if \<not> force then (Inr Return, print ''Please delete the file and try again.'' w2)
         else
           (case resolve_conflicts env (print ''Conflicts found. Deleting old files...'' w2) of
              (Inl e, w3) \<Rightarrow> (Inl e, w3)
            | (Inr u, w3) \<Rightarrow> (Inr Continue, w3)))
      else (Inr Continue, w1))"

text \<open>Lines 238 to 259: download, extract, clean up, summary.\<close>

definition install_steps :: "env \<Rightarrow> json \<Rightarrow> string \<Rightarrow> world \<Rightarrow> (error + unit) \<times> world" where
  "install_steps env installed_version version w =
     (case download_vexos env version (print ''Downloading VexOS...'' w) of
        (Inl e, w1) \<Rightarrow> (Inl e, w1)
      | (Inr u, w1) \<Rightarrow>
     (case extract_vexos env (print ''Extracting VexOS...'' (print ''Downloaded VexOS.'' w1)) of
        (Inl e, w2) \<Rightarrow> (Inl e, w2)
      | (Inr u, w2) \<Rightarrow>
     (case os_remove env (print ''Cleaning up...'' (print ''Extracted VexOS.'' w2)) of
        (Inl e, w3) \<Rightarrow> (Inl e, w3)
      | (Inr u, w3) \<Rightarrow>
     (let w4 = print ''VexOS successfully installed.'' (print ''Cleaned up.'' w3) in
      case (case installed_version of
              JNull \<Rightarrow> Inr (print ''OLD VERSION: None'' w4)
            | JStr current \<Rightarrow> Inr (print (''OLD VERSION: '' @ current) w4)
            | other \<Rightarrow> Inl TypeError) of
        Inl e \<Rightarrow> (Inl e, w4)
      | Inr w5 \<Rightarrow>
          (case vexos_to_semver version of
             Inl e \<Rightarrow> (Inl e, w5)
           | Inr semver \<Rightarrow> (Inr (), print (''NEW VERSION: '' @ semver) w5))))))"

text \<open>Lines 227 to 259: what follows the check of the installed version.\<close>

definition conflicts_then_install ::
  "env \<Rightarrow> bool \<Rightarrow> json \<Rightarrow> string \<Rightarrow> world \<Rightarrow> (error + unit) \<times> world" where
  "conflicts_then_install env force installed_version version w =
     (case check_conflicts env force w of
        (Inl e, w1) \<Rightarrow> (Inl e, w1)
      | (Inr Return, w1) \<Rightarrow> (Inr (), w1)
      | (Inr Continue, w1) \<Rightarrow> install_steps env installed_version version w1)"

definition install_vexos :: "env \<Rightarrow> bool \<Rightarrow> string option \<Rightarrow> world \<Rightarrow> (error + unit) \<times> world" where
  "install_vexos env force version w =
     (case resolve_version env version w of
        (Inl e, w1) \<Rightarrow> (Inl e, w1)
      | (Inr v, w1) \<Rightarrow>
     (case read_installed env w1 of
        Inl e \<Rightarrow> (Inl e, w1)
      | Inr installed_version \<Rightarrow>
     (case check_outdated force installed_version v w1 of
        (Inl e, w2) \<Rightarrow> (Inl e, w2)
      | (Inr Return, w2) \<Rightarrow> (Inr (), w2)
      | (Inr Continue, w2) \<Rightarrow> conflicts_then_install env force installed_version v w2)))"

section \<open>Versions as the specification states them\<close>

text \<open>
  The specification speaks of a structured version, four non-negative integers, of its
  dotted rendering (what the manifest holds) and of the raw token that encodes it (what the
  catalog holds). The source has no such type: it works on the strings. These definitions
  follow the specification's words and serve to state its claims about versions;
  \<open>str_nat\<close> is the decimal numeral of a number, \<open>older\<close> the specification's
  numeric comparison of the components in order.
\<close>

type_synonym version = "nat \<times> nat \<times> nat \<times> nat"

definition digit :: "nat \<Rightarrow> char" where
  "digit d = ''0123456789'' ! d"

fun str_nat :: "nat \<Rightarrow> string" where
  "str_nat n = (if n < 10 then [digit n] else str_nat (n div 10) @ [digit (n mod 10)])"

definition render :: "version \<Rightarrow> string" where
  "render v = (case v of (major, minor, patch, build) \<Rightarrow>
     str_nat major @ ''.'' @ str_nat minor @ ''.'' @ str_nat patch @ ''.'' @ str_nat build)"

definition token_of :: "version \<Rightarrow> string" where
  "token_of v = (case v of (major, minor, patch, build) \<Rightarrow>
     ''VEXOS_V5_'' @ str_nat major @ ''_'' @ str_nat minor @ ''_'' @ str_nat patch @ ''_'' @ str_nat build)"

text \<open>\<open>join sep ws\<close> is \<^verbatim>\<open>sep.join(ws)\<close>, the inverse of \<^verbatim>\<open>split\<close>.\<close>

fun join :: "char \<Rightarrow> string list \<Rightarrow> string" where
  "join c [] = []"
| "join c [w] = w"
| "join c (w # ws) = w @ c # join c ws"

definition older :: "version \<Rightarrow> version \<Rightarrow> bool" where
  "older a b = (case a of (a1, a2, a3, a4) \<Rightarrow> case b of (b1, b2, b3, b4) \<Rightarrow>
     a1 < b1 \<or> (a1 = b1 \<and> (a2 < b2 \<or> (a2 = b2 \<and> (a3 < b3 \<or> (a3 = b3 \<and> a4 < b4))))))"

text \<open>
  The specification's \<^verbatim>\<open>parse\<close>: a token of six fields with the two literals whose
  four trailing fields are non-negative integers in decimal digits (as Python's
  \<^verbatim>\<open>int\<close> reads them, leading zeros included) encodes the version of those four
  numbers; \<open>None\<close> is the specification's \<^verbatim>\<open>MalformedVersion\<close>.
\<close>

fun digits_value :: "nat \<Rightarrow> string \<Rightarrow> nat option" where
  "digits_value n [] = Some n"
| "digits_value n (c # cs) =
     (if 48 \<le> (of_char c :: nat) \<and> (of_char c :: nat) \<le> 57
      then digits_value (10 * n + (of_char c - 48)) cs
      else None)"

definition nat_of_str :: "string \<Rightarrow> nat option" where
  "nat_of_str s = (if s = [] then None else digits_value 0 s)"

definition parse_token :: "string \<Rightarrow> version option" where
  "parse_token token =
     (case py_split (CHR ''_'') token of
        [p, q, a, b, c, d] \<Rightarrow>
          if p = ''VEXOS'' \<and> q = ''V5'' then
            (case (nat_of_str a, nat_of_str b, nat_of_str c, nat_of_str d) of
               (Some major, Some minor, Some patch, Some build) \<Rightarrow>
                 Some (major, minor, patch, build)
             | other \<Rightarrow> None)
          else None
      | other \<Rightarrow> None)"

text \<open>
  A raw token in the catalog's format: the two literals and four fields free of the
  delimiter. Nothing is asked of the content of the fields.
\<close>

definition token_fields :: "string \<Rightarrow> string \<Rightarrow> string \<Rightarrow> string \<Rightarrow> string \<Rightarrow> bool" where
  "token_fields version a b c d \<longleftrightarrow>
     CHR ''_'' \<notin> set a \<and> CHR ''_'' \<notin> set b \<and> CHR ''_'' \<notin> set c \<and> CHR ''_'' \<notin> set d \<and>
     version = ''VEXOS_V5_'' @ a @ ''_'' @ b @ ''_'' @ c @ ''_'' @ d"

section \<open>Sample environments and worlds\<close>

text \<open>
  Concrete inputs on which the theorems below are instantiated: a decoder that knows
  three manifests, an archive that unpacks to one subfolder holding the firmware of
  version 1.9.0.0, a network that answers, and an operating system that refuses nothing.
\<close>

definition manifest_of :: "string \<Rightarrow> string" where
  \<open>manifest_of semver = ''{"version": "'' @ semver @ ''"}''\<close>

definition sample_loads :: "string \<Rightarrow> json option" where
  "sample_loads text =
     (if text = manifest_of ''1.10.0.0'' then Some (JObj [(''version'', JStr ''1.10.0.0'')])
      else if text = manifest_of ''1.9.0.0'' then Some (JObj [(''version'', JStr ''1.9.0.0'')])
      else if text = ''{}'' then Some (JObj [])
      else None)"

definition sample_tree :: dir where
  "sample_tree =
     [(''VEXOS_V5_1_9_0_0'',
       Dir [(''manifest.json'', File (manifest_of ''1.9.0.0'')), (''boot.bin'', File ''boot'')])]"

definition sample_env :: env where
  "sample_env =
     \<lparr>catalog = Inr ''VEXOS_V5_1_9_0_0'',
      package = (\<lambda>url. Inr ''PK''),
      unpack = (\<lambda>bytes t. (None, Some sample_tree)),
      json_loads = sample_loads,
      artifact_read_fails = False,
      artifact_write_fails = False,
      artifact_remove_fails = False,
      target_rmtree_fails = False,
      rmtree_leaves = (\<lambda>entries. entries),
      manifest_read_fails = False\<rparr>"

definition installed_world :: "string \<Rightarrow> world" where
  "installed_world text =
     \<lparr>artifact = None, target = Some [(''manifest.json'', File text)], out = []\<rparr>"

definition fresh_world :: world where
  "fresh_world = \<lparr>artifact = None, target = None, out = []\<rparr>"

section \<open>Splitting and joining\<close>

lemma split_nonempty: "py_split c s \<noteq> []"
  by (induction s) (auto split: list.splits)

lemma split_no_sep: "c \<notin> set s \<Longrightarrow> py_split c s = [s]"
  by (induction s) (auto split: list.splits)

lemma split_append: "c \<notin> set a \<Longrightarrow> py_split c (a @ c # s) = a # py_split c s"
  by (induction a) (auto split: list.splits)

lemma split_parts: "w \<in> set (py_split c s) \<Longrightarrow> c \<notin> set w"
  by (induction s arbitrary: w) (auto split: list.splits if_splits)

lemma length_split: "length (py_split c s) = Suc (length (filter (\<lambda>x. x = c) s))"
  by (induction s) (auto split: list.splits simp: split_nonempty)

lemma join_Cons_hd: "join c ((a # w) # ws) = a # join c (w # ws)"
  by (cases ws) auto

lemma join_Nil_hd: "ws \<noteq> [] \<Longrightarrow> join c ([] # ws) = c # join c ws"
  by (cases ws) auto

lemma join_split: "join c (py_split c s) = s"
  by (induction s) (auto split: list.splits simp: split_nonempty join_Cons_hd join_Nil_hd)

lemma str_lt_irrefl: "\<not> str_lt a a"
  by (induction a) auto


section \<open>Properties of the versioning functions\<close>

lemma split6:
  assumes "length xs = 6"
  obtains p q a b c d where "xs = [p, q, a, b, c, d]"
proof -
  from assms obtain p q a b c d where "xs = [p, q, a, b, c, d]"
    by (auto simp: length_Suc_conv eval_nat_numeral)
  then show ?thesis using that by blast
qed

lemma token_split:
  assumes "CHR ''_'' \<notin> set a" "CHR ''_'' \<notin> set b" "CHR ''_'' \<notin> set c" "CHR ''_'' \<notin> set d"
  shows "py_split (CHR ''_'') (''VEXOS_V5_'' @ a @ ''_'' @ b @ ''_'' @ c @ ''_'' @ d)
         = [''VEXOS'', ''V5'', a, b, c, d]"
proof -
  have "py_split (CHR ''_'') (a @ CHR ''_'' # b @ CHR ''_'' # c @ CHR ''_'' # d) = [a, b, c, d]"
    using assms by (simp add: split_append split_no_sep)
  then show ?thesis by simp
qed

lemma semver_ok:
  assumes "CHR ''_'' \<notin> set a" "CHR ''_'' \<notin> set b" "CHR ''_'' \<notin> set c" "CHR ''_'' \<notin> set d"
  shows "vexos_to_semver (''VEXOS_V5_'' @ a @ ''_'' @ b @ ''_'' @ c @ ''_'' @ d)
         = Inr (a @ ''.'' @ b @ ''.'' @ c @ ''.'' @ d)"
  unfolding vexos_to_semver_def token_split[OF assms] by simp

lemma semver_Inr_iff:
  "vexos_to_semver t = Inr r \<longleftrightarrow>
     (\<exists>a b c d. CHR ''_'' \<notin> set a \<and> CHR ''_'' \<notin> set b \<and> CHR ''_'' \<notin> set c \<and> CHR ''_'' \<notin> set d \<and>
        t = ''VEXOS_V5_'' @ a @ ''_'' @ b @ ''_'' @ c @ ''_'' @ d \<and>
        r = a @ ''.'' @ b @ ''.'' @ c @ ''.'' @ d)" (is "?L \<longleftrightarrow> ?R")
proof
  assume ?R then show ?L using semver_ok by blast
next
  assume L: ?L
  then have len: "length (py_split (CHR ''_'') t) = 6"
    by (auto simp: vexos_to_semver_def Let_def split: if_splits)
  then obtain p q a b c d where xs: "py_split (CHR ''_'') t = [p, q, a, b, c, d]"
    by (rule split6)
  from L xs have pq: "p = ''VEXOS''" "q = ''V5''" and r: "r = a @ ''.'' @ b @ ''.'' @ c @ ''.'' @ d"
    by (auto simp: vexos_to_semver_def Let_def split: if_splits)
  have "join (CHR ''_'') (py_split (CHR ''_'') t) = t" by (rule join_split)
  then have t: "t = ''VEXOS_V5_'' @ a @ ''_'' @ b @ ''_'' @ c @ ''_'' @ d"
    unfolding xs pq by simp
  have "\<forall>w \<in> set (py_split (CHR ''_'') t). CHR ''_'' \<notin> set w"
    using split_parts by blast
  then have "CHR ''_'' \<notin> set a" "CHR ''_'' \<notin> set b" "CHR ''_'' \<notin> set c" "CHR ''_'' \<notin> set d"
    unfolding xs by simp_all
  with t r show ?R by blast
qed

lemma semver_cases: "vexos_to_semver t = Inl (RaiseStr parse_msg) \<or> (\<exists>r. vexos_to_semver t = Inr r)"
  by (simp add: vexos_to_semver_def Let_def)

declare str_nat.simps [simp del]

lemma digit_range:
  assumes "d < 10"
  shows "48 \<le> (of_char (digit d) :: nat) \<and> (of_char (digit d) :: nat) \<le> 57"
proof -
  from assms have "d \<in> {0, 1, 2, 3, 4, 5, 6, 7, 8, 9}" by auto
  then show ?thesis by (auto simp: digit_def)
qed

lemma str_nat_digits:
  "c \<in> set (str_nat n) \<Longrightarrow> 48 \<le> (of_char c :: nat) \<and> (of_char c :: nat) \<le> 57"
proof (induction n rule: str_nat.induct)
  case (1 n)
  show ?case
  proof (cases "n < 10")
    case True
    with "1.prems" have "c = digit n" by (simp add: str_nat.simps [of n])
    with True show ?thesis using digit_range by blast
  next
    case False
    with "1.prems" have "c \<in> set (str_nat (n div 10)) \<or> c = digit (n mod 10)"
      by (auto simp: str_nat.simps [of n])
    then show ?thesis
    proof
      assume "c \<in> set (str_nat (n div 10))"
      with "1.IH" False show ?thesis by blast
    next
      assume "c = digit (n mod 10)"
      then show ?thesis using digit_range [of "n mod 10"] by simp
    qed
  qed
qed

lemma str_nat_no_sep: "CHR ''_'' \<notin> set (str_nat n)" "CHR ''.'' \<notin> set (str_nat n)"
  using str_nat_digits [of "CHR ''_''" n] str_nat_digits [of "CHR ''.''" n] by auto

lemma compare_part_same:
  "i < length cur \<Longrightarrow> i < length lat \<Longrightarrow> cur ! i = lat ! i \<Longrightarrow> compare_part cur lat i = Inr None"
  by (simp add: compare_part_def index_def str_gt_def str_lt_irrefl)

lemma compare_part_short: "length cur \<le> i \<Longrightarrow> compare_part cur lat i = Inl IndexError"
  by (simp add: compare_part_def index_def)

lemma is_outdated_all_same:
  assumes "vexos_to_semver latest = Inr semver"
      and "py_split (CHR ''.'') current = cur" and "py_split (CHR ''.'') semver = lat"
      and "\<forall>i < 4. compare_part cur lat i = Inr None"
  shows "is_outdated current latest = Inr False"
  using assms by (simp add: is_outdated_def)

lemma is_outdated_same_fields:
  assumes us: "CHR ''_'' \<notin> set a" "CHR ''_'' \<notin> set b" "CHR ''_'' \<notin> set c" "CHR ''_'' \<notin> set d"
      and dot: "CHR ''.'' \<notin> set a" "CHR ''.'' \<notin> set b" "CHR ''.'' \<notin> set c" "CHR ''.'' \<notin> set d"
  shows "is_outdated (a @ ''.'' @ b @ ''.'' @ c @ ''.'' @ d)
           (''VEXOS_V5_'' @ a @ ''_'' @ b @ ''_'' @ c @ ''_'' @ d) = Inr False"
proof -
  have sp: "py_split (CHR ''.'') (a @ ''.'' @ b @ ''.'' @ c @ ''.'' @ d) = [a, b, c, d]"
    using dot by (simp add: split_append split_no_sep)
  have cp: "\<forall>i < 4. compare_part [a, b, c, d] [a, b, c, d] i = Inr None"
    by (simp add: compare_part_same)
  show ?thesis
    by (rule is_outdated_all_same [OF semver_ok [OF us] sp sp cp])
qed

lemma dots_semver:
  assumes "vexos_to_semver latest = Inr semver"
  shows "4 \<le> length (py_split (CHR ''.'') semver)"
proof -
  from assms obtain a b c d where "semver = a @ ''.'' @ b @ ''.'' @ c @ ''.'' @ d"
    using semver_Inr_iff by blast
  then show ?thesis by (simp add: length_split)
qed

text \<open>
  What does hold of the code: a dotted string is never outdated relative to a token that
  spells the same components, whatever they are; in particular the rendering of a version
  relative to the token written with the same decimal numerals.
\<close>

lemma is_outdated_own_semver:
  assumes "vexos_to_semver latest = Inr semver"
  shows "is_outdated semver latest = Inr False"
proof -
  have "4 \<le> length (py_split (CHR ''.'') semver)"
    using assms by (rule dots_semver)
  then have "\<forall>i < 4. compare_part (py_split (CHR ''.'') semver) (py_split (CHR ''.'') semver) i
               = Inr None"
    by (simp add: compare_part_same)
  with assms show ?thesis
    by (intro is_outdated_all_same [where semver = semver]) simp_all
qed

lemma is_outdated_same_numerals: "is_outdated (render v) (token_of v) = Inr False"
proof -
  obtain major minor patch build where v: "v = (major, minor, patch, build)"
    by (cases v) auto
  show ?thesis
    unfolding v render_def token_of_def prod.case
    by (rule is_outdated_same_fields) (rule str_nat_no_sep)+
qed

lemma is_outdated_total:
  assumes "vexos_to_semver latest = Inr semver" and "4 \<le> length (py_split (CHR ''.'') current)"
  shows "\<exists>b. is_outdated current latest = Inr b"
proof -
  let ?cur = "py_split (CHR ''.'') current" and ?lat = "py_split (CHR ''.'') semver"
  have ex: "\<exists>r. compare_part ?cur ?lat i = Inr r" if "i < 4" for i
    using that assms(2) dots_semver [OF assms(1)] by (simp add: compare_part_def index_def)
  obtain r0 r1 r2 r3 where r:
    "compare_part ?cur ?lat 0 = Inr r0" "compare_part ?cur ?lat 1 = Inr r1"
    "compare_part ?cur ?lat 2 = Inr r2" "compare_part ?cur ?lat 3 = Inr r3"
    using ex [of 0] ex [of 1] ex [of 2] ex [of 3] by auto
  show ?thesis
    using r by (cases r0; cases r1; cases r2; cases r3) (auto simp: is_outdated_def Let_def assms(1))
qed

section \<open>Properties of the effects\<close>

lemmas run_defs =
  install_vexos_def resolve_version_def read_installed_def get_installed_version_def
  read_manifest_def check_outdated_def is_outdated_def vexos_to_semver_def compare_part_def
  index_def str_gt_def conflicts_then_install_def check_conflicts_def
  package_already_downloaded_def resolve_conflicts_def except_IOError_pass_def os_remove_def
  rmtree_def install_steps_def download_vexos_def extract_vexos_def get_latest_version_def
  startswith_def print_def Let_def

lemmas sample_defs =
  sample_env_def sample_loads_def sample_tree_def manifest_of_def installed_world_def
  fresh_world_def

lemma print_fields [simp]:
  "artifact (print line w) = artifact w"
  "target (print line w) = target w"
  "out (print line w) = out w @ [line]"
  by (simp_all add: print_def)

lemma resolve_version_keeps:
  assumes "resolve_version env version w = (r, w1)"
  shows "artifact w1 = artifact w \<and> target w1 = target w"
  using assms by (auto simp: resolve_version_def Let_def split: option.splits sum.splits)

lemma check_outdated_keeps:
  assumes "check_outdated force installed v w = (r, w1)"
  shows "artifact w1 = artifact w \<and> target w1 = target w"
  using assms by (auto simp: check_outdated_def split: json.splits sum.splits if_splits)

lemma except_os_remove:
  "except_IOError_pass (os_remove env w) =
     (Inr (), if artifact w \<noteq> None \<and> \<not> artifact_remove_fails env then w\<lparr>artifact := None\<rparr> else w)"
  by (simp add: except_IOError_pass_def os_remove_def)

lemma except_rmtree:
  "except_IOError_pass (rmtree env w) =
     (Inr (), w\<lparr>target := if target_rmtree_fails env
                             then map_option (rmtree_leaves env) (target w) else None\<rparr>)"
  by (cases "target w") (simp_all add: except_IOError_pass_def rmtree_def)

lemma resolve_conflicts_ok: "fst (resolve_conflicts env w) = Inr ()"
  by (simp add: resolve_conflicts_def except_os_remove except_rmtree)

lemma resolve_conflicts_artifact:
  "\<not> artifact_remove_fails env \<Longrightarrow> artifact (snd (resolve_conflicts env w)) = None"
  by (simp add: resolve_conflicts_def except_os_remove except_rmtree)

lemma check_conflicts_found:
  assumes "package_already_downloaded env w"
  shows "check_conflicts env force w =
     (if force
      then (Inr Continue,
            snd (resolve_conflicts env
              (print ''Conflicts found. Deleting old files...''
                (print ''VexOS package already downloaded.''
                  (print ''Checking for conflicts...'' w)))))
      else (Inr Return,
            print ''Please delete the file and try again.''
              (print ''VexOS package already downloaded.''
                (print ''Checking for conflicts...'' w))))"
proof -
  have p: "package_already_downloaded env (print ''Checking for conflicts...'' w)"
    using assms by (simp add: package_already_downloaded_def)
  show ?thesis
  proof (cases force)
    case True
    obtain r w3 where rc: "resolve_conflicts env
              (print ''Conflicts found. Deleting old files...''
                (print ''VexOS package already downloaded.''
                  (print ''Checking for conflicts...'' w))) = (r, w3)"
      by (cases "resolve_conflicts env
              (print ''Conflicts found. Deleting old files...''
                (print ''VexOS package already downloaded.''
                  (print ''Checking for conflicts...'' w)))")
    with resolve_conflicts_ok [of env "print ''Conflicts found. Deleting old files...''
                (print ''VexOS package already downloaded.''
                  (print ''Checking for conflicts...'' w))"]
    have "r = Inr ()" by simp
    with True p rc show ?thesis by (simp add: check_conflicts_def Let_def)
  next
    case False
    with p show ?thesis by (simp add: check_conflicts_def Let_def)
  qed
qed

lemma move_files_no_IndexError: "fst (move_files sub files others) \<noteq> Inl IndexError"
  by (induction files arbitrary: others) (auto split: if_splits)

lemma move_files_ok:
  "distinct (map fst files) \<Longrightarrow> sub \<notin> set (map fst files) \<Longrightarrow>
   set (map fst files) \<inter> set (map fst others) = {} \<Longrightarrow>
   move_files sub files others = (Inr (), (sub, Dir []) # others @ files)"
proof (induction files arbitrary: others)
  case Nil
  then show ?case by simp
next
  case (Cons f files)
  obtain name n where f: "f = (name, n)" by (cases f)
  from Cons.prems f have a: "name \<noteq> sub" "name \<notin> set (map fst others)" by auto
  from Cons.prems f have "set (map fst files) \<inter> set (map fst (others @ [(name, n)])) = {}"
    by auto
  with Cons.IH [of "others @ [(name, n)]"] Cons.prems f
  have "move_files sub files (others @ [(name, n)]) = (Inr (), (sub, Dir []) # (others @ [(name, n)]) @ files)"
    by simp
  with a f show ?case by simp
qed

lemma extract_unpacked:
  assumes "artifact w = Some bytes"
      and "unpack env bytes (if target_rmtree_fails env
                            then map_option (rmtree_leaves env) (target w) else None) = (None, t)"
  shows "extract_vexos env w =
     (case t of
        None \<Rightarrow> (Inl (IOError ''FileNotFoundError''), w\<lparr>target := t\<rparr>)
      | Some [] \<Rightarrow> (Inl IndexError, w\<lparr>target := t\<rparr>)
      | Some ((sub, File b) # others) \<Rightarrow> (Inl (IOError ''NotADirectoryError''), w\<lparr>target := t\<rparr>)
      | Some ((sub, Dir files) # others) \<Rightarrow>
          (case move_files sub files others of
             (Inl e, listing) \<Rightarrow> (Inl e, w\<lparr>target := Some listing\<rparr>)
           | (Inr u, listing) \<Rightarrow> (Inr (), w\<lparr>target := Some (tl listing)\<rparr>)))"
proof -
  define t0 where "t0 = (if target_rmtree_fails env
                            then map_option (rmtree_leaves env) (target w) else None)"
  have rm: "except_IOError_pass (rmtree env w) = (Inr (), w\<lparr>target := t0\<rparr>)"
    by (cases "target w") (simp_all add: except_rmtree t0_def)
  have u: "unpack env bytes t0 = (None, t)"
    using assms(2) by (simp only: t0_def)
  show ?thesis
    unfolding extract_vexos_def rm
    by (simp add: assms(1) u Let_def split: option.split list.split node.split prod.split sum.split)
qed

section \<open>Claims about versions\<close>

text \<open>
  Claim C1. The specification requires that \<^verbatim>\<open>is_outdated\<close> compare the four components
  as integers, so that an installed version with minor component 9 is outdated relative to
  an otherwise equal candidate with minor component 10. The source compares the components
  as strings (lines 112 to 133 apply \<^verbatim>\<open><\<close> and \<^verbatim>\<open>>\<close> to the pieces of
  \<^verbatim>\<open>split\<close>), and \<^verbatim>\<open>"9" > "10"\<close> holds for strings: with 1.9.0.0 installed and the
  candidate 1.10.0.0, numerically newer, \<^verbatim>\<open>is_outdated\<close> returns \<^verbatim>\<open>False\<close>.
\<close>

theorem C1_minor_9_not_outdated_by_10:
  "older (1, 9, 0, 0) (1, 10, 0, 0) \<and>
   render (1, 9, 0, 0) = ''1.9.0.0'' \<and> token_of (1, 10, 0, 0) = ''VEXOS_V5_1_10_0_0'' \<and>
   is_outdated (render (1, 9, 0, 0)) (token_of (1, 10, 0, 0)) = Inr False"
  by (simp add: older_def render_def token_of_def str_nat.simps digit_def is_outdated_def
      vexos_to_semver_def compare_part_def index_def str_gt_def)

text \<open>
  Claim C8. The specification requires that comparing a version against itself, the
  installed dotted rendering against a raw token encoding the same four components,
  report up to date. The source compares the spellings of the components, not their
  values (see C1): the token \<^verbatim>\<open>VEXOS_V5_1_00_0_0\<close> encodes the version 1.0.0.0, and
  against the installed rendering \<^verbatim>\<open>1.0.0.0\<close> the minor components are the strings
  \<^verbatim>\<open>"0"\<close> and \<^verbatim>\<open>"00"\<close>, of which the first is smaller: \<^verbatim>\<open>is_outdated\<close> returns
  \<^verbatim>\<open>True\<close>.
\<close>

theorem C8_same_version_reported_outdated:
  "parse_token ''VEXOS_V5_1_00_0_0'' = Some (1, 0, 0, 0) \<and>
   render (1, 0, 0, 0) = ''1.0.0.0'' \<and>
   is_outdated (render (1, 0, 0, 0)) ''VEXOS_V5_1_00_0_0'' = Inr True"
  by (simp add: parse_token_def nat_of_str_def render_def str_nat.simps digit_def is_outdated_def
      vexos_to_semver_def compare_part_def index_def str_gt_def)

text \<open>
  Claim C10. \<^verbatim>\<open>is_outdated\<close> indexes the components 0 to 3 of \<^verbatim>\<open>current.split(".")\<close>
  without a check. When the candidate token is well formed and the installed version
  string has fewer than four components, each equal to the candidate's component at the
  same place, the comparison reaches a missing component and raises \<^verbatim>\<open>IndexError\<close>
  instead of returning a boolean.
\<close>

theorem C10_short_installed_version_raises:
  assumes latest: "vexos_to_semver latest = Inr semver"
      and short: "length (py_split (CHR ''.'') current) < 4"
      and same: "\<forall>i < length (py_split (CHR ''.'') current).
                   py_split (CHR ''.'') current ! i = py_split (CHR ''.'') semver ! i"
  shows "is_outdated current latest = Inl IndexError"
proof -
  let ?cur = "py_split (CHR ''.'') current" and ?lat = "py_split (CHR ''.'') semver"
  have lat: "4 \<le> length ?lat" using latest by (rule dots_semver)
  have eq: "compare_part ?cur ?lat i = Inr None" if "i < length ?cur" for i
    using that same lat short by (intro compare_part_same) auto
  have err: "compare_part ?cur ?lat (length ?cur) = Inl IndexError"
    by (simp add: compare_part_short)
  have "length ?cur \<noteq> 0" using split_nonempty by simp
  with short consider "length ?cur = 1" | "length ?cur = 2" | "length ?cur = 3" by linarith
  then show ?thesis
  proof cases
    case 1
    with eq [of 0] err show ?thesis by (simp add: is_outdated_def latest)
  next
    case 2
    with eq [of 0] eq [of 1] err show ?thesis by (simp add: is_outdated_def latest)
  next
    case 3
    with eq [of 0] eq [of 1] eq [of 2] err show ?thesis by (simp add: is_outdated_def latest)
  qed
qed

theorem C10_short_installed_version_raises_witness:
  "is_outdated ''1.0'' ''VEXOS_V5_1_0_0_1'' = Inl IndexError"
  using C10_short_installed_version_raises [of "''VEXOS_V5_1_0_0_1''" "''1.0.0.1''" "''1.0''"]
  by (simp add: vexos_to_semver_def less_Suc_eq)

text \<open>
  Claim C5, as the code has it. \<^verbatim>\<open>vexos_to_semver\<close> succeeds exactly on the tokens
  made of the literals \<^verbatim>\<open>VEXOS\<close> and \<^verbatim>\<open>V5\<close> and four more fields, six
  underscore-delimited fields in all, and returns the four trailing fields joined by
  dots; on every other token it fails. The source never looks at the content of the
  trailing fields: whether they are non-negative integers plays no part. A token that
  encodes a structured version is parsed to that version's dotted rendering.
\<close>

theorem C5_vexos_to_semver_shape:
  "(token_fields version a b c d \<longrightarrow>
      vexos_to_semver version = Inr (a @ ''.'' @ b @ ''.'' @ c @ ''.'' @ d)) \<and>
   ((vexos_to_semver version = Inl (RaiseStr parse_msg)) =
      (\<forall>a b c d. \<not> token_fields version a b c d)) \<and>
   vexos_to_semver (token_of v) = Inr (render v)"
proof (intro conjI impI)
  assume "token_fields version a b c d"
  then show "vexos_to_semver version = Inr (a @ ''.'' @ b @ ''.'' @ c @ ''.'' @ d)"
    unfolding token_fields_def using semver_ok by blast
next
  show "(vexos_to_semver version = Inl (RaiseStr parse_msg)) =
      (\<forall>a b c d. \<not> token_fields version a b c d)"
  proof
    assume "vexos_to_semver version = Inl (RaiseStr parse_msg)"
    then have "\<forall>r. vexos_to_semver version \<noteq> Inr r" by simp
    then show "\<forall>a b c d. \<not> token_fields version a b c d"
      unfolding token_fields_def using semver_ok by blast
  next
    assume no: "\<forall>a b c d. \<not> token_fields version a b c d"
    have "\<not> (\<exists>r. vexos_to_semver version = Inr r)"
    proof
      assume "\<exists>r. vexos_to_semver version = Inr r"
      then obtain r where "vexos_to_semver version = Inr r" ..
      then obtain a b c d where "token_fields version a b c d"
        unfolding token_fields_def semver_Inr_iff by blast
      with no show False by blast
    qed
    with semver_cases [of version] show "vexos_to_semver version = Inl (RaiseStr parse_msg)"
      by blast
  qed
next
  obtain major minor patch build where v: "v = (major, minor, patch, build)"
    by (cases v) auto
  show "vexos_to_semver (token_of v) = Inr (render v)"
    unfolding v render_def token_of_def prod.case
    by (rule semver_ok) (rule str_nat_no_sep)+
qed

theorem C5_vexos_to_semver_shape_witness:
  "vexos_to_semver ''VEXOS_V5_1_10_0_0'' = Inr ''1.10.0.0'' \<and>
   (\<forall>a b c d. \<not> token_fields ''VEXOS_V5_1_0'' a b c d)"
  using C5_vexos_to_semver_shape [of "''VEXOS_V5_1_10_0_0''" "''1''" "''10''" "''0''" "''0''"]
    C5_vexos_to_semver_shape [of "''VEXOS_V5_1_0''"]
  by (simp add: token_fields_def vexos_to_semver_def)

text \<open>
  The claim C5 as the specification states it fails: a token whose trailing fields are
  not numbers is parsed without an error.
\<close>

theorem C5_non_numeric_fields_accepted:
  "vexos_to_semver ''VEXOS_V5_a_b_c_d'' = Inr ''a.b.c.d''"
  by (simp add: vexos_to_semver_def)

section \<open>Claims about the manifest and the conflict resolver\<close>

text \<open>
  Claim C3, as the code has it. The specification says that reading the installed manifest
  never raises to the caller. In the source only \<^verbatim>\<open>IOError\<close> is caught (lines 209 to
  212): when the manifest is absent or cannot be read, the installed version is
  \<^verbatim>\<open>None\<close> and the run goes on as a fresh installation; when the manifest is read but is
  not valid JSON, or is a JSON object without the key \<^verbatim>\<open>version\<close>,
  \<^verbatim>\<open>get_installed_version\<close> raises (lines 153 and 159), the exception is not an
  \<^verbatim>\<open>IOError\<close>, and the run ends with it before anything else is done.
\<close>

theorem C3_manifest_read_policy:
  assumes "resolve_version env version w = (Inr v, w1)"
  shows "(read_manifest env w = None \<longrightarrow>
            install_vexos env force version w =
              conflicts_then_install env force JNull v
                (print ''Fresh installation will be performed.''
                  (print ''No VexOS installation found.'' w1))) \<and>
         (\<forall>m. read_manifest env w = Some m \<and>
            (json_loads env m = None \<or>
             (\<exists>members. json_loads env m = Some (JObj members) \<and>
                         map_of members ''version'' = None)) \<longrightarrow>
            install_vexos env force version w = (Inl (RaiseStr manifest_msg), w1))"
proof (intro conjI impI allI)
  have rm: "read_manifest env w1 = read_manifest env w"
    using resolve_version_keeps [OF assms] by (simp add: read_manifest_def)
  {
    assume "read_manifest env w = None"
    then have "read_installed env w1 = Inr JNull"
      by (simp add: read_installed_def get_installed_version_def rm)
    then show "install_vexos env force version w =
              conflicts_then_install env force JNull v
                (print ''Fresh installation will be performed.''
                  (print ''No VexOS installation found.'' w1))"
      by (simp add: install_vexos_def assms check_outdated_def)
  }
  {
    fix m :: string
    assume a: "read_manifest env w = Some m \<and>
            (json_loads env m = None \<or>
             (\<exists>members. json_loads env m = Some (JObj members) \<and>
                         map_of members ''version'' = None))"
    then have "get_installed_version env w1 = Inl (RaiseStr manifest_msg)"
      by (auto simp: get_installed_version_def rm)
    then have "read_installed env w1 = Inl (RaiseStr manifest_msg)"
      by (simp add: read_installed_def)
    then show "install_vexos env force version w = (Inl (RaiseStr manifest_msg), w1)"
      by (simp add: install_vexos_def assms)
  }
qed

theorem C3_manifest_read_policy_witness:
  "install_vexos sample_env False (Some ''VEXOS_V5_1_9_0_0'') fresh_world =
     conflicts_then_install sample_env False JNull ''VEXOS_V5_1_9_0_0''
       (print ''Fresh installation will be performed.''
         (print ''No VexOS installation found.''
           (print ''Version Specified: VEXOS_V5_1_9_0_0'' fresh_world))) \<and>
   install_vexos sample_env False (Some ''VEXOS_V5_1_9_0_0'') (installed_world ''not json'') =
     (Inl (RaiseStr manifest_msg),
      print ''Version Specified: VEXOS_V5_1_9_0_0'' (installed_world ''not json''))"
  using C3_manifest_read_policy [of sample_env "Some ''VEXOS_V5_1_9_0_0''" fresh_world
      "''VEXOS_V5_1_9_0_0''" "print ''Version Specified: VEXOS_V5_1_9_0_0'' fresh_world" False]
    C3_manifest_read_policy [of sample_env "Some ''VEXOS_V5_1_9_0_0''" "installed_world ''not json''"
      "''VEXOS_V5_1_9_0_0''"
      "print ''Version Specified: VEXOS_V5_1_9_0_0'' (installed_world ''not json'')" False]
  by (simp add: resolve_version_def read_manifest_def sample_defs)

text \<open>
  The claim C3 as the specification states it fails: a manifest that is not valid JSON
  is not taken for an absent one, the run ends with the exception.
\<close>

theorem C3_invalid_manifest_propagates:
  "read_manifest sample_env (installed_world ''not json'') = Some ''not json'' \<and>
   json_loads sample_env ''not json'' = None \<and>
   install_vexos sample_env False (Some ''VEXOS_V5_1_9_0_0'') (installed_world ''not json'') =
     (Inl (RaiseStr manifest_msg),
      \<lparr>artifact = None, target = Some [(''manifest.json'', File ''not json'')],
       out = [''Version Specified: VEXOS_V5_1_9_0_0'']\<rparr>)"
  by (simp add: run_defs sample_defs)

text \<open>
  Claim C4, as the code has it. The specification lets \<^verbatim>\<open>resolve\<close> swallow a failed
  deletion only when the path is already absent. In the source both deletions are wrapped
  in \<^verbatim>\<open>except IOError: pass\<close> (lines 181 to 188), which catches every operating-system
  error: \<^verbatim>\<open>resolve_conflicts\<close> always returns normally; it removes the package unless
  the removal is refused, in which case the package stays, and wipes the installation
  unless that is refused, in which case what the interrupted removal left of the tree
  stays; no refusal leaves a trace.
\<close>

theorem C4_resolve_conflicts_swallows_all:
  "fst (resolve_conflicts env w) = Inr () \<and>
   artifact (snd (resolve_conflicts env w)) =
     (if artifact_remove_fails env then artifact w else None) \<and>
   target (snd (resolve_conflicts env w)) =
     (if target_rmtree_fails env then map_option (rmtree_leaves env) (target w) else None) \<and>
   out (snd (resolve_conflicts env w)) = out w"
  by (simp add: resolve_conflicts_def except_os_remove except_rmtree)

text \<open>
  The claim C4 as the specification states it fails: the package exists, its removal is
  refused with an error of the operating system, and \<^verbatim>\<open>resolve_conflicts\<close> returns
  normally with the package still in place.
\<close>

theorem C4_refused_removal_swallowed:
  "artifact (fresh_world\<lparr>artifact := Some ''old''\<rparr>) = Some ''old'' \<and>
   fst (os_remove (sample_env\<lparr>artifact_remove_fails := True\<rparr>) (fresh_world\<lparr>artifact := Some ''old''\<rparr>))
     = Inl (IOError ''PermissionError'') \<and>
   resolve_conflicts (sample_env\<lparr>artifact_remove_fails := True\<rparr>) (fresh_world\<lparr>artifact := Some ''old''\<rparr>)
     = (Inr (), fresh_world\<lparr>artifact := Some ''old''\<rparr>)"
  by (simp add: run_defs sample_defs)

section \<open>Claims about the installer\<close>

text \<open>
  Claim C6, as the code has it. The specification says that a staged package is a conflict
  in every run. In the source the conflict check (lines 227 to 236) comes after the version
  is resolved, the manifest is read and the installed version is compared, each of which
  can end the run first; and the package counts as present when it can be opened for
  reading. For a run that reaches the check with a package that can be opened: without
  force the run returns there, the package and the installation being as they were at the
  start; with force \<^verbatim>\<open>resolve_conflicts\<close> runs and the download, extraction and cleanup
  start from the world it leaves, in which the package no longer exists unless its removal
  was refused.
\<close>

theorem C6_conflict_policy:
  assumes "resolve_version env version w = (Inr v, w1)"
      and "read_installed env w1 = Inr installed"
      and "check_outdated force installed v w1 = (Inr Continue, w2)"
      and "package_already_downloaded env w"
  shows "artifact w2 = artifact w \<and> target w2 = target w \<and>
     (\<not> force \<longrightarrow>
        install_vexos env force version w =
          (Inr (),
           print ''Please delete the file and try again.''
             (print ''VexOS package already downloaded.''
               (print ''Checking for conflicts...'' w2)))) \<and>
     (force \<longrightarrow>
        install_vexos env force version w =
          install_steps env installed v
            (snd (resolve_conflicts env
              (print ''Conflicts found. Deleting old files...''
                (print ''VexOS package already downloaded.''
                  (print ''Checking for conflicts...'' w2))))) \<and>
        (\<not> artifact_remove_fails env \<longrightarrow>
           artifact (snd (resolve_conflicts env
              (print ''Conflicts found. Deleting old files...''
                (print ''VexOS package already downloaded.''
                  (print ''Checking for conflicts...'' w2))))) = None))"
proof -
  have k1: "artifact w1 = artifact w \<and> target w1 = target w"
    using assms(1) by (rule resolve_version_keeps)
  have k2: "artifact w2 = artifact w1 \<and> target w2 = target w1"
    using assms(3) by (rule check_outdated_keeps)
  have p: "package_already_downloaded env w2"
    using assms(4) k1 k2 by (simp add: package_already_downloaded_def)
  have run: "install_vexos env force version w = conflicts_then_install env force installed v w2"
    by (simp add: install_vexos_def assms(1,2,3))
  have cc: "conflicts_then_install env force installed v w2 =
     (if force
      then install_steps env installed v
            (snd (resolve_conflicts env
              (print ''Conflicts found. Deleting old files...''
                (print ''VexOS package already downloaded.''
                  (print ''Checking for conflicts...'' w2)))))
      else (Inr (),
            print ''Please delete the file and try again.''
              (print ''VexOS package already downloaded.''
                (print ''Checking for conflicts...'' w2))))"
    by (simp add: conflicts_then_install_def check_conflicts_found [OF p])
  note r = run [unfolded cc]
  show ?thesis
  proof (cases force)
    case True
    with r k1 k2 resolve_conflicts_artifact show ?thesis by simp
  next
    case False
    with r k1 k2 show ?thesis by simp
  qed
qed

theorem C6_conflict_policy_witness:
  "install_vexos sample_env False (Some ''VEXOS_V5_1_9_0_0'') (fresh_world\<lparr>artifact := Some ''old''\<rparr>) =
     (Inr (),
      \<lparr>artifact = Some ''old'', target = None,
       out = [''Version Specified: VEXOS_V5_1_9_0_0'',
              ''No VexOS installation found.'',
              ''Fresh installation will be performed.'',
              ''Checking for conflicts...'',
              ''VexOS package already downloaded.'',
              ''Please delete the file and try again.'']\<rparr>) \<and>
   install_vexos sample_env True (Some ''VEXOS_V5_1_9_0_0'') (fresh_world\<lparr>artifact := Some ''old''\<rparr>) =
     install_steps sample_env JNull ''VEXOS_V5_1_9_0_0''
       \<lparr>artifact = None, target = None,
        out = [''Version Specified: VEXOS_V5_1_9_0_0'',
               ''No VexOS installation found.'',
               ''Fresh installation will be performed.'',
               ''Checking for conflicts...'',
               ''VexOS package already downloaded.'',
               ''Conflicts found. Deleting old files...'']\<rparr>"
  using C6_conflict_policy [of sample_env "Some ''VEXOS_V5_1_9_0_0''"
      "fresh_world\<lparr>artifact := Some ''old''\<rparr>" "''VEXOS_V5_1_9_0_0''"
      "print ''Version Specified: VEXOS_V5_1_9_0_0'' (fresh_world\<lparr>artifact := Some ''old''\<rparr>)"
      JNull False
      "print ''Fresh installation will be performed.'' (print ''No VexOS installation found.''
         (print ''Version Specified: VEXOS_V5_1_9_0_0'' (fresh_world\<lparr>artifact := Some ''old''\<rparr>)))"]
    C6_conflict_policy [of sample_env "Some ''VEXOS_V5_1_9_0_0''"
      "fresh_world\<lparr>artifact := Some ''old''\<rparr>" "''VEXOS_V5_1_9_0_0''"
      "print ''Version Specified: VEXOS_V5_1_9_0_0'' (fresh_world\<lparr>artifact := Some ''old''\<rparr>)"
      JNull True
      "print ''Fresh installation will be performed.'' (print ''No VexOS installation found.''
         (print ''Version Specified: VEXOS_V5_1_9_0_0'' (fresh_world\<lparr>artifact := Some ''old''\<rparr>)))"]
  by (simp add: resolve_version_def read_installed_def get_installed_version_def read_manifest_def
      check_outdated_def package_already_downloaded_def resolve_conflicts_def except_os_remove
      except_rmtree print_def fresh_world_def sample_env_def)

text \<open>
  The claim C6 as the specification states it fails: the package exists, force is false,
  and the run does not stop with a skip but ends with the exception that the manifest
  without a version raises, before the conflict check.
\<close>

theorem C6_conflict_check_not_reached:
  "artifact ((installed_world ''{}'')\<lparr>artifact := Some ''old''\<rparr>) = Some ''old'' \<and>
   package_already_downloaded sample_env ((installed_world ''{}'')\<lparr>artifact := Some ''old''\<rparr>) \<and>
   install_vexos sample_env False (Some ''VEXOS_V5_1_9_0_0'')
       ((installed_world ''{}'')\<lparr>artifact := Some ''old''\<rparr>) =
     (Inl (RaiseStr manifest_msg),
      \<lparr>artifact = Some ''old'', target = Some [(''manifest.json'', File ''{}'')],
       out = [''Version Specified: VEXOS_V5_1_9_0_0'']\<rparr>)"
  by (simp add: run_defs sample_defs)

text \<open>
  Claim C2, as the code has it. The specification makes the cleanup best effort. In the
  source the removal of line 250 stands unguarded in \<^verbatim>\<open>install_vexos\<close>, like the
  download and the extraction before it: for every run that reaches the cleanup, after a
  download and an extraction that succeeded, a removal that fails ends the run with its
  error, right after \<^verbatim>\<open>Cleaning up...\<close> is printed; no summary follows, and the
  extracted installation stays in place.
\<close>

theorem C2_cleanup_failure_propagates:
  assumes "download_vexos env version (print ''Downloading VexOS...'' w) = (Inr (), w1)"
      and "extract_vexos env (print ''Extracting VexOS...'' (print ''Downloaded VexOS.'' w1))
             = (Inr (), w2)"
      and "fst (os_remove env (print ''Cleaning up...'' (print ''Extracted VexOS.'' w2))) = Inl e"
  shows "install_steps env installed_version version w =
           (Inl e, print ''Cleaning up...'' (print ''Extracted VexOS.'' w2))"
proof -
  have "os_remove env (print ''Cleaning up...'' (print ''Extracted VexOS.'' w2)) =
          (Inl e, print ''Cleaning up...'' (print ''Extracted VexOS.'' w2))"
    using assms(3) by (auto simp: os_remove_def split: if_splits)
  then show ?thesis
    by (simp add: install_steps_def assms(1,2))
qed

theorem C2_cleanup_failure_propagates_witness:
  "install_steps (sample_env\<lparr>artifact_remove_fails := True\<rparr>) JNull ''VEXOS_V5_1_9_0_0'' fresh_world =
     (Inl (IOError ''PermissionError''),
      \<lparr>artifact = Some ''PK'',
       target = Some [(''manifest.json'', File (manifest_of ''1.9.0.0'')),
                      (''boot.bin'', File ''boot'')],
       out = [''Downloading VexOS...'', ''Downloaded VexOS.'', ''Extracting VexOS...'',
              ''Extracted VexOS.'', ''Cleaning up...'']\<rparr>)"
  using C2_cleanup_failure_propagates [of "sample_env\<lparr>artifact_remove_fails := True\<rparr>"
      "''VEXOS_V5_1_9_0_0''" fresh_world
      "\<lparr>artifact = Some ''PK'', target = None, out = [''Downloading VexOS...'']\<rparr>"
      "\<lparr>artifact = Some ''PK'',
        target = Some [(''manifest.json'', File (manifest_of ''1.9.0.0'')),
                       (''boot.bin'', File ''boot'')],
        out = [''Downloading VexOS...'', ''Downloaded VexOS.'', ''Extracting VexOS...'']\<rparr>"
      "IOError ''PermissionError''" JNull]
  by (simp add: download_vexos_def extract_vexos_def except_rmtree os_remove_def print_def
      sample_env_def sample_tree_def fresh_world_def)

text \<open>
  The claim C2 as the specification states it fails: on a fresh system, with a download and
  an extraction that succeed and a removal that the operating system refuses, the whole
  run ends with the error of the removal, before the summary.
\<close>

theorem C2_cleanup_failure_aborts:
  "install_vexos (sample_env\<lparr>artifact_remove_fails := True\<rparr>) False
       (Some ''VEXOS_V5_1_9_0_0'') fresh_world =
     (Inl (IOError ''PermissionError''),
      \<lparr>artifact = Some ''PK'',
       target = Some [(''manifest.json'', File (manifest_of ''1.9.0.0'')),
                      (''boot.bin'', File ''boot'')],
       out = [''Version Specified: VEXOS_V5_1_9_0_0'',
              ''No VexOS installation found.'',
              ''Fresh installation will be performed.'',
              ''Checking for conflicts...'',
              ''Downloading VexOS...'',
              ''Downloaded VexOS.'',
              ''Extracting VexOS...'',
              ''Extracted VexOS.'',
              ''Cleaning up...'']\<rparr>)"
  by (simp add: run_defs sample_defs)

text \<open>
  Claim C7. The specification requires a skip when the target version is not newer than
  the installed one and force is false, and an installation when it is newer. The decision
  of lines 215 to 222 is the result of \<^verbatim>\<open>is_outdated\<close>, which orders the components as
  strings (see C1): with 1.10.0.0 installed and the older target 1.9.0.0 the run reports
  an update and replaces the installation by the older version; with 1.9.0.0 installed and
  the newer target 1.10.0.0 the run reports that the installation is up to date.
\<close>

theorem C7_newer_installed_is_replaced:
  "older (1, 9, 0, 0) (1, 10, 0, 0) \<and>
   install_vexos sample_env False (Some (token_of (1, 9, 0, 0)))
       (installed_world (manifest_of (render (1, 10, 0, 0)))) =
     (Inr (),
      \<lparr>artifact = None,
       target = Some [(''manifest.json'', File (manifest_of ''1.9.0.0'')),
                      (''boot.bin'', File ''boot'')],
       out = [''Version Specified: VEXOS_V5_1_9_0_0'',
              ''An update is available (currently installed: 1.10.0.0).'',
              ''Checking for conflicts...'',
              ''Downloading VexOS...'',
              ''Downloaded VexOS.'',
              ''Extracting VexOS...'',
              ''Extracted VexOS.'',
              ''Cleaning up...'',
              ''Cleaned up.'',
              ''VexOS successfully installed.'',
              ''OLD VERSION: 1.10.0.0'',
              ''NEW VERSION: 1.9.0.0'']\<rparr>) \<and>
   install_vexos sample_env False (Some (token_of (1, 10, 0, 0)))
       (installed_world (manifest_of (render (1, 9, 0, 0)))) =
     (Inr (),
      \<lparr>artifact = None,
       target = Some [(''manifest.json'', File (manifest_of ''1.9.0.0''))],
       out = [''Version Specified: VEXOS_V5_1_10_0_0'',
              ''Your VexOS installation is up to date.'']\<rparr>)"
  by (simp add: older_def render_def token_of_def str_nat.simps digit_def run_defs sample_defs)

text \<open>
  Claim C9. \<^verbatim>\<open>extract_vexos\<close> takes the first entry of the freshly unpacked directory
  (line 57) without a check. When the archive unpacks to an empty directory the call
  raises \<^verbatim>\<open>IndexError\<close>, which nothing handles. When the unpacked directory holds a
  single subdirectory the indexing is safe: no \<^verbatim>\<open>IndexError\<close> is raised, and if
  moreover the names in the subdirectory are distinct and differ from its own name, the
  extraction succeeds and leaves the content of the subdirectory as the installation.
\<close>

theorem C9_extract_first_entry:
  assumes "artifact w = Some bytes"
  shows "(unpack env bytes (if target_rmtree_fails env
                            then map_option (rmtree_leaves env) (target w) else None)
              = (None, Some []) \<longrightarrow>
            extract_vexos env w = (Inl IndexError, w\<lparr>target := Some []\<rparr>)) \<and>
         (\<forall>sub files.
            unpack env bytes (if target_rmtree_fails env
                            then map_option (rmtree_leaves env) (target w) else None)
              = (None, Some [(sub, Dir files)]) \<longrightarrow>
            fst (extract_vexos env w) \<noteq> Inl IndexError \<and>
            (distinct (map fst files) \<and> sub \<notin> set (map fst files) \<longrightarrow>
               extract_vexos env w = (Inr (), w\<lparr>target := Some files\<rparr>)))"
proof (intro conjI impI allI)
  assume "unpack env bytes (if target_rmtree_fails env
                            then map_option (rmtree_leaves env) (target w) else None) = (None, Some [])"
  from extract_unpacked [OF assms this]
  show "extract_vexos env w = (Inl IndexError, w\<lparr>target := Some []\<rparr>)" by simp
next
  fix sub files
  assume u: "unpack env bytes (if target_rmtree_fails env
                            then map_option (rmtree_leaves env) (target w) else None)
              = (None, Some [(sub, Dir files)])"
  have e: "extract_vexos env w =
          (case move_files sub files [] of
             (Inl e, listing) \<Rightarrow> (Inl e, w\<lparr>target := Some listing\<rparr>)
           | (Inr u, listing) \<Rightarrow> (Inr (), w\<lparr>target := Some (tl listing)\<rparr>))"
    using extract_unpacked [OF assms u] by simp
  show "fst (extract_vexos env w) \<noteq> Inl IndexError"
    using move_files_no_IndexError [of sub files "[]"]
    by (cases "move_files sub files []") (auto simp: e split: sum.splits)
  assume "distinct (map fst files) \<and> sub \<notin> set (map fst files)"
  then have "move_files sub files [] = (Inr (), (sub, Dir []) # [] @ files)"
    by (intro move_files_ok) auto
  then show "extract_vexos env w = (Inr (), w\<lparr>target := Some files\<rparr>)"
    by (simp add: e)
qed

theorem C9_extract_first_entry_witness:
  "extract_vexos (sample_env\<lparr>unpack := (\<lambda>bytes t. (None, Some []))\<rparr>)
     (fresh_world\<lparr>artifact := Some ''PK''\<rparr>)
     = (Inl IndexError, fresh_world\<lparr>artifact := Some ''PK'', target := Some []\<rparr>) \<and>
   extract_vexos sample_env (fresh_world\<lparr>artifact := Some ''PK''\<rparr>)
     = (Inr (), fresh_world\<lparr>artifact := Some ''PK'',
          target := Some [(''manifest.json'', File (manifest_of ''1.9.0.0'')),
                          (''boot.bin'', File ''boot'')]\<rparr>)"
  using C9_extract_first_entry [of "fresh_world\<lparr>artifact := Some ''PK''\<rparr>" "''PK''"
      "sample_env\<lparr>unpack := (\<lambda>bytes t. (None, Some []))\<rparr>"]
    C9_extract_first_entry [of "fresh_world\<lparr>artifact := Some ''PK''\<rparr>" "''PK''" sample_env]
  by (simp add: sample_env_def sample_tree_def fresh_world_def)

end
